theory Spec2Isabelle
  imports Complex_Main "HOL-Library.Char_ord" "HOL-Library.List_Lexorder"
begin

section \<open>The document store\<close>

text \<open>
  The back end keeps its data in MongoDB collections, read and written through Mongoose
  models. A collection is modelled as the list of its documents in insertion order, a
  document as a record of the fields the route handlers read or write, and an ObjectId as
  the string that \<open>toString()\<close> gives. A JavaScript \<open>Date\<close> is the integer number of
  milliseconds since the epoch. A field that may be \<open>undefined\<close> is an \<open>option\<close>.

  The Mongoose schemas of users, doctors and appointments are not among the sources, so a
  save is the insertion of the document as the handler builds it. The database is taken
  to answer every call; the \<open>catch\<close> block of a handler is modelled where the handler's
  own code can reach it.

  An \<open>objectId\<close> is an identifier in the canonical form in which it is stored: 24
  lower-case hexadecimal digits. The booking routes and the deletion of a user are modelled
  for requests that carry their identifiers in this form, and their properties are stated
  for identifiers that are found in the store. The status update takes the \<open>:id\<close> of
  the request as any string and casts it, as Mongoose does before the query.
\<close>

type_synonym objectId = string

subsection \<open>Numbers\<close>

text \<open>
  A JavaScript number is an IEEE 754 double: a finite value, one of the two infinities, or
  \<open>NaN\<close>. A finite double is modelled by the real number it stands for; the sign of
  zero is not kept (\<open>JSON.stringify\<close> prints both zeros as \<open>0\<close>).
\<close>

datatype number = Finite real | Infinity | NegInfinity | NaN

text \<open>Rounding to the nearest integer, a tie going to the even one.\<close>

definition roundHalfEven :: "real \<Rightarrow> int" where
  "roundHalfEven r =
     (let f = \<lfloor>r\<rfloor> in
      if r - of_int f < 1 / 2 then f
      else if 1 / 2 < r - of_int f then f + 1
      else if even f then f else f + 1)"

text \<open>
  The distance between neighbouring doubles around \<open>x \<noteq> 0\<close>: the significand has 53
  bits, and below \<open>2\<^sup>-\<^sup>1\<^sup>0\<^sup>2\<^sup>2\<close> the doubles are subnormal and evenly spaced.
\<close>

definition ulp :: "real \<Rightarrow> real" where
  "ulp x = 2 powr (of_int (max \<lfloor>log 2 \<bar>x\<bar>\<rfloor> (- 1022)) - 52)"

text \<open>
  The double that an arithmetic operation delivers for the exact result \<open>x\<close>: the nearest
  double, ties to even, and an infinity once the rounded value reaches \<open>2\<^sup>1\<^sup>0\<^sup>2\<^sup>4\<close>.
\<close>

definition round64 :: "real \<Rightarrow> number" where
  "round64 x =
     (if x = 0 then Finite 0
      else
        let y = of_int (roundHalfEven (x / ulp x)) * ulp x in
        if 2 ^ 1024 \<le> \<bar>y\<bar> then (if 0 < x then Infinity else NegInfinity) else Finite y)"

definition signOf :: "number \<Rightarrow> int" where
  "signOf a =
     (case a of
        Finite x \<Rightarrow> (if 0 < x then 1 else if x < 0 then - 1 else 0)
      | Infinity \<Rightarrow> 1 | NegInfinity \<Rightarrow> - 1 | NaN \<Rightarrow> 0)"

text \<open>JavaScript's \<open>a * b\<close>.\<close>

fun multiply :: "number \<Rightarrow> number \<Rightarrow> number" where
  "multiply (Finite x) (Finite y) = round64 (x * y)"
| "multiply NaN b = NaN"
| "multiply a NaN = NaN"
| "multiply a b =
     (if signOf a * signOf b = 0 then NaN
      else if 0 < signOf a * signOf b then Infinity else NegInfinity)"

record user =
  user_oid :: objectId
  user_name :: string
  user_email :: string
  user_phone :: string
  user_address :: string
  user_role :: string

record doctor =
  doctor_oid :: objectId
  userId :: objectId
  specialization :: string
  qualification :: string
  experience :: int
  fees :: "number option"

record appointment =
  appt_oid :: objectId
  user_id :: objectId
  doctor_id :: objectId
  date :: int
  time :: string
  symptoms :: string
  appt_notes :: string
  status :: string

record admin =
  admin_oid :: objectId
  admin_user_id :: objectId
  permissions :: "string list"

record feedback =
  feedback_oid :: objectId
  feedback_user_id :: objectId
  feedback_subject :: string
  feedback_message :: string
  feedback_rating :: int
  feedback_status :: string

record consultation =
  consultation_oid :: objectId
  patient_id :: objectId
  consultation_doctor_id :: objectId
  consultation_status :: string
  consultation_subject :: string

record consultationMessage =
  message_oid :: objectId
  consultation_id :: objectId
  sender_id :: objectId
  sender_role :: string
  message_text :: string

record store =
  users :: "user list"
  doctors :: "doctor list"
  appointments :: "appointment list"
  admins :: "admin list"
  feedbacks :: "feedback list"
  consultations :: "consultation list"
  consultationMessages :: "consultationMessage list"

subsection \<open>Requests and responses\<close>

text \<open>
  The \<open>auth\<close> middleware puts the verified identity on the request: \<open>req.userId\<close> and
  \<open>req.userRole\<close>. A handler answers with \<open>res.status(c).json(...)\<close>: a failure is the
  pair of the status code and the message, \<open>Inl (c, m)\<close>; a success is \<open>Inr\<close> of the
  payload. Every handler returns its answer together with the store it leaves behind.
\<close>

record auth =
  req_userId :: objectId
  req_userRole :: string

type_synonym failure = "nat \<times> string"

text \<open>JavaScript's \<open>!x\<close> on a body field that is a string or absent.\<close>

definition falsy :: "string option \<Rightarrow> bool" where
  "falsy x = (case x of None \<Rightarrow> True | Some v \<Rightarrow> v = [])"

text \<open>JavaScript's \<open>x || d\<close> on such a field.\<close>

definition orElse :: "string option \<Rightarrow> string \<Rightarrow> string" where
  "orElse x d = (case x of None \<Rightarrow> d | Some v \<Rightarrow> if v = [] then d else v)"

subsection \<open>Queries\<close>

text \<open>
  \<open>Model.findById(id)\<close> for an identifier in canonical form: the first document with
  that \<open>_id\<close>, or \<open>null\<close>.
\<close>

definition findUserById :: "objectId \<Rightarrow> user list \<Rightarrow> user option" where
  "findUserById i us = find (\<lambda>u. user_oid u = i) us"

definition findDoctorById :: "objectId \<Rightarrow> doctor list \<Rightarrow> doctor option" where
  "findDoctorById i ds = find (\<lambda>d. doctor_oid d = i) ds"

definition findAppointmentById :: "objectId \<Rightarrow> appointment list \<Rightarrow> appointment option" where
  "findAppointmentById i as = find (\<lambda>a. appt_oid a = i) as"

text \<open>\<open>Doctor.findOne({ userId })\<close>.\<close>

definition findDoctorByUserId :: "objectId \<Rightarrow> doctor list \<Rightarrow> doctor option" where
  "findDoctorByUserId uid ds = find (\<lambda>d. userId d = uid) ds"

text \<open>
  \<open>Appointment.findOne({ doctor_id, date, time, status: { $in: blocking } })\<close>, the
  conflict query of both booking routes; they differ in the list \<open>blocking\<close>.
\<close>

definition slotTaken :: "string list \<Rightarrow> objectId \<Rightarrow> int \<Rightarrow> string \<Rightarrow> appointment \<Rightarrow> bool" where
  "slotTaken blocking d t tm a =
     (doctor_id a = d \<and> date a = t \<and> time a = tm \<and> status a \<in> set blocking)"

definition findSlot ::
  "string list \<Rightarrow> objectId \<Rightarrow> int \<Rightarrow> string \<Rightarrow> appointment list \<Rightarrow> appointment option" where
  "findSlot blocking d t tm as = find (slotTaken blocking d t tm) as"

text \<open>\<open>new Appointment(doc).save()\<close> appends the document to the collection.\<close>

definition saveAppointment :: "appointment \<Rightarrow> store \<Rightarrow> store" where
  "saveAppointment a s = s\<lparr>appointments := appointments s @ [a]\<rparr>"

section \<open>Patient booking: POST /book-appointment\<close>

record bookBody =
  body_doctor_id :: "string option"
  body_date :: "string option"
  body_time :: "string option"
  body_symptoms :: "string option"
  body_notes :: "string option"

record booked =
  booked_id :: objectId
  booked_doctor_id :: objectId
  booked_date :: int
  booked_time :: string
  booked_status :: string

text \<open>
  The handler, check by check in the order of the source. Two things come from outside
  the handler and are parameters: \<open>castDate\<close>, the cast Mongoose applies to the \<open>date\<close>
  of a query or document (\<open>None\<close> when the string is no date: the query raises and the
  \<open>catch\<close> block answers 500), and \<open>newId\<close>, the ObjectId generated for the new document.
\<close>

definition bookAppointment ::
  "(string \<Rightarrow> int option) \<Rightarrow> objectId \<Rightarrow> auth \<Rightarrow> bookBody \<Rightarrow> store \<Rightarrow> (failure + booked) \<times> store" where
  "bookAppointment castDate newId rq b s =
     (if req_userRole rq \<noteq> ''Patient'' then
        (Inl (403, ''Only patients can book appointments''), s)
      else if falsy (body_doctor_id b) \<or> falsy (body_date b) \<or> falsy (body_time b) then
        (Inl (400, ''Doctor ID, date, and time are required''), s)
      else
        let d = the (body_doctor_id b); dt = the (body_date b); tm = the (body_time b) in
        if findDoctorById d (doctors s) = None then
          (Inl (404, ''Doctor not found''), s)
        else if req_userRole rq = ''Doctor'' \<and>
                (case findDoctorByUserId (req_userId rq) (doctors s) of
                   None \<Rightarrow> False
                 | Some userDoctor \<Rightarrow> doctor_oid userDoctor = d) then
          (Inl (400, ''Doctors cannot book appointments with themselves''), s)
        else
          (case castDate dt of
             None \<Rightarrow> (Inl (500, ''Failed to book appointment''), s)
           | Some t \<Rightarrow>
               if findSlot [''Pending'', ''Upcoming''] d t tm (appointments s) \<noteq> None then
                 (Inl (400, ''This time slot is already booked''), s)
               else
                 let a = \<lparr>appt_oid = newId, user_id = req_userId rq, doctor_id = d,
                           date = t, time = tm,
                           symptoms = orElse (body_symptoms b) [],
                           appt_notes = orElse (body_notes b) [],
                           status = ''Pending''\<rparr>
                 in (Inr \<lparr>booked_id = appt_oid a, booked_doctor_id = doctor_id a,
                           booked_date = date a, booked_time = time a,
                           booked_status = status a\<rparr>,
                     saveAppointment a s)))"

text \<open>The appointments that hold a slot, whatever their status.\<close>

definition atSlot :: "objectId \<Rightarrow> int \<Rightarrow> string \<Rightarrow> appointment list \<Rightarrow> appointment list" where
  "atSlot d t tm as = filter (\<lambda>a. doctor_id a = d \<and> date a = t \<and> time a = tm) as"

section \<open>The expiry sweep\<close>

text \<open>
  Both the admin list route and POST /mark-expired run
  \<open>Appointment.updateMany({ date: { $lt: currentDate }, status: { $nin: [...] } },
  { status: 'Expired' })\<close>, where \<open>currentDate = new Date()\<close> is read when the handler
  runs; it is the parameter \<open>now\<close>.
\<close>

definition stale :: "int \<Rightarrow> appointment \<Rightarrow> bool" where
  "stale now a = (date a < now \<and> status a \<notin> set [''Completed'', ''Cancelled'', ''Expired''])"

definition expire :: "appointment \<Rightarrow> appointment" where
  "expire a = a\<lparr>status := ''Expired''\<rparr>"

text \<open>
  \<open>updateMany\<close> rewrites every matching document in place and reports, as
  \<open>modifiedCount\<close>, how many documents it changed.
\<close>

definition updateManyExpired :: "int \<Rightarrow> appointment list \<Rightarrow> appointment list" where
  "updateManyExpired now as = map (\<lambda>a. if stale now a then expire a else a) as"

definition modifiedCount :: "int \<Rightarrow> appointment list \<Rightarrow> nat" where
  "modifiedCount now as = length (filter (\<lambda>a. stale now a \<and> expire a \<noteq> a) as)"

definition sweep :: "int \<Rightarrow> store \<Rightarrow> store" where
  "sweep now s = s\<lparr>appointments := updateManyExpired now (appointments s)\<rparr>"

subsection \<open>POST /admin/mark-expired\<close>

definition markExpired :: "int \<Rightarrow> auth \<Rightarrow> store \<Rightarrow> (failure + nat) \<times> store" where
  "markExpired now rq s =
     (if req_userRole rq \<noteq> ''Admin'' then
        (Inl (403, ''Only admins can access this endpoint''), s)
      else (Inr (modifiedCount now (appointments s)), sweep now s))"

section \<open>Admin views of appointments\<close>

text \<open>
  What a response shows of an appointment. \<open>JSON.stringify\<close> drops a key whose value is
  \<open>undefined\<close>, so a key that a route does not send and a key that is \<open>undefined\<close> are
  both \<open>None\<close>.
\<close>

record patientView =
  pv_id :: "objectId option"
  pv_name :: "string option"
  pv_email :: "string option"
  pv_phone :: "string option"

record doctorView =
  dv_id :: "objectId option"
  dv_name :: "string option"
  dv_email :: "string option"
  dv_phone :: "string option"
  dv_specialization :: "string option"
  dv_fees :: "number option"

record apptView =
  av_id :: objectId
  av_date :: string
  av_time :: string
  av_status :: string
  av_symptoms :: "string option"
  av_notes :: "string option"
  av_patient :: patientView
  av_doctor :: doctorView

text \<open>
  \<open>populate('user_id')\<close> and the nested \<open>populate\<close> of \<open>doctor_id\<close> and its \<open>userId\<close>
  replace a reference by the document it names, or by \<open>null\<close>.
\<close>

definition populateUser :: "store \<Rightarrow> appointment \<Rightarrow> user option" where
  "populateUser s a = findUserById (user_id a) (users s)"

definition populateDoctor :: "store \<Rightarrow> appointment \<Rightarrow> doctor option" where
  "populateDoctor s a = findDoctorById (doctor_id a) (doctors s)"

definition populateDoctorUser :: "store \<Rightarrow> appointment \<Rightarrow> user option" where
  "populateDoctorUser s a =
     (case populateDoctor s a of None \<Rightarrow> None | Some d \<Rightarrow> findUserById (userId d) (users s))"

text \<open>\<open>x || 0\<close> on a number that may be \<open>undefined\<close>: \<open>undefined\<close>, \<open>0\<close> and \<open>NaN\<close> are falsy.\<close>

definition numOrZero :: "number option \<Rightarrow> number" where
  "numOrZero x = (case x of None \<Rightarrow> Finite 0 | Some NaN \<Rightarrow> Finite 0 | Some v \<Rightarrow> v)"

subsection \<open>GET /admin/appointments\<close>

text \<open>\<open>.sort({ date: -1, time: -1 })\<close>: latest date first, then the greater time label.\<close>

definition precedes :: "appointment \<Rightarrow> appointment \<Rightarrow> bool" where
  "precedes a b = (date b < date a \<or> (date a = date b \<and> time b \<le> time a))"

fun insertDesc :: "appointment \<Rightarrow> appointment list \<Rightarrow> appointment list" where
  "insertDesc a [] = [a]"
| "insertDesc a (b # bs) = (if precedes a b then a # b # bs else b # insertDesc a bs)"

definition sortDesc :: "appointment list \<Rightarrow> appointment list" where
  "sortDesc as = foldr insertDesc as []"

text \<open>
  The entry of the list for one appointment. \<open>isoDate\<close> stands for
  \<open>new Date(d).toISOString().split('T')[0]\<close>.
\<close>

definition formatAppointment :: "(int \<Rightarrow> string) \<Rightarrow> store \<Rightarrow> appointment \<Rightarrow> apptView" where
  "formatAppointment isoDate s a =
     (let u = populateUser s a; d = populateDoctor s a; du = populateDoctorUser s a in
      \<lparr>av_id = appt_oid a, av_date = isoDate (date a), av_time = time a,
       av_status = status a, av_symptoms = Some (symptoms a), av_notes = Some (appt_notes a),
       av_patient =
         \<lparr>pv_id = map_option user_oid u,
          pv_name = Some (orElse (map_option user_name u) ''Unknown''),
          pv_email = Some (orElse (map_option user_email u) ''Unknown''),
          pv_phone = Some (orElse (map_option user_phone u) ''Unknown'')\<rparr>,
       av_doctor =
         \<lparr>dv_id = map_option doctor_oid d,
          dv_name = Some (orElse (map_option user_name du) ''Unknown''),
          dv_email = Some (orElse (map_option user_email du) ''Unknown''),
          dv_phone = Some (orElse (map_option user_phone du) ''Unknown''),
          dv_specialization = Some (orElse (map_option specialization d) ''Unknown''),
          dv_fees = Some (numOrZero (case d of None \<Rightarrow> None | Some x \<Rightarrow> fees x))\<rparr>\<rparr>)"

text \<open>The handler sweeps first, then reads; it answers the list and its length.\<close>

definition listAppointments ::
  "int \<Rightarrow> (int \<Rightarrow> string) \<Rightarrow> auth \<Rightarrow> store \<Rightarrow> (failure + apptView list \<times> nat) \<times> store" where
  "listAppointments now isoDate rq s =
     (if req_userRole rq \<noteq> ''Admin'' then
        (Inl (403, ''Only admins can access this endpoint''), s)
      else
        let s' = sweep now s;
            formattedAppointments = map (formatAppointment isoDate s') (sortDesc (appointments s'))
        in (Inr (formattedAppointments, length formattedAppointments), s'))"

subsection \<open>PUT /admin/appointments/:id/status\<close>

definition validStatuses :: "string list" where
  "validStatuses = [''Pending'', ''Confirmed'', ''Completed'', ''Cancelled'', ''Rejected'', ''Expired'']"

text \<open>\<open>findByIdAndUpdate(id, { status })\<close> rewrites the first document with that \<open>_id\<close>.\<close>

fun setStatusById :: "objectId \<Rightarrow> string \<Rightarrow> appointment list \<Rightarrow> appointment list" where
  "setStatusById i st [] = []"
| "setStatusById i st (a # as) =
     (if appt_oid a = i then a\<lparr>status := st\<rparr> # as else a # setStatusById i st as)"

definition statusView :: "(int \<Rightarrow> string) \<Rightarrow> store \<Rightarrow> appointment \<Rightarrow> apptView" where
  "statusView isoDate s a =
     (let u = populateUser s a; d = populateDoctor s a; du = populateDoctorUser s a in
      \<lparr>av_id = appt_oid a, av_date = isoDate (date a), av_time = time a,
       av_status = status a, av_symptoms = None, av_notes = None,
       av_patient =
         \<lparr>pv_id = None, pv_name = map_option user_name u,
          pv_email = map_option user_email u, pv_phone = None\<rparr>,
       av_doctor =
         \<lparr>dv_id = None, dv_name = map_option user_name du, dv_email = None, dv_phone = None,
          dv_specialization = map_option specialization d, dv_fees = None\<rparr>\<rparr>)"

text \<open>
  \<open>st\<close> is \<open>req.body.status\<close>, \<open>None\<close> when the body has none:
  \<open>validStatuses.includes(undefined)\<close> is false. \<open>i\<close> is \<open>req.params.id\<close>, any string.
  \<open>findByIdAndUpdate\<close> first casts it to an ObjectId: \<open>castObjectId\<close> is that cast, a
  parameter like \<open>castDate\<close>, giving the identifier in canonical form, or \<open>None\<close> when
  the string is no ObjectId; then the query raises and the \<open>catch\<close> block answers 500.
  \<open>findByIdAndUpdate\<close> gives \<open>null\<close> and writes nothing when no document has the
  \<open>_id\<close>; with \<open>{ new: true }\<close> it gives the document as it is after the update.
\<close>

definition updateStatus ::
  "(string \<Rightarrow> objectId option) \<Rightarrow> (int \<Rightarrow> string) \<Rightarrow> auth \<Rightarrow> string \<Rightarrow> string option \<Rightarrow> store
     \<Rightarrow> (failure + apptView) \<times> store" where
  "updateStatus castObjectId isoDate rq i st s =
     (if req_userRole rq \<noteq> ''Admin'' then
        (Inl (403, ''Only admins can access this endpoint''), s)
      else
        (case st of
           None \<Rightarrow>
             (Inl (400, ''Invalid status. Valid statuses are: Pending, Confirmed, Completed, Cancelled, Rejected, Expired''), s)
         | Some v \<Rightarrow>
             if v \<notin> set validStatuses then
               (Inl (400, ''Invalid status. Valid statuses are: Pending, Confirmed, Completed, Cancelled, Rejected, Expired''), s)
             else
               (case castObjectId i of
                  None \<Rightarrow> (Inl (500, ''Server error''), s)
                | Some oid \<Rightarrow>
                    (case findAppointmentById oid (appointments s) of
                       None \<Rightarrow> (Inl (404, ''Appointment not found''), s)
                     | Some a \<Rightarrow>
                         let s' = s\<lparr>appointments := setStatusById oid v (appointments s)\<rparr> in
                         (Inr (statusView isoDate s' (a\<lparr>status := v\<rparr>)), s')))))"

subsection \<open>POST /admin/appointments\<close>

record adminBookBody =
  ab_user_id :: "string option"
  ab_doctor_id :: "string option"
  ab_date :: "string option"
  ab_time :: "string option"
  ab_symptoms :: "string option"
  ab_notes :: "string option"
  ab_status :: "string option"

text \<open>
  The answer is built from the saved document and from \<open>populatedAppointment\<close>, read back
  by \<open>findById(appointment._id)\<close>. Reading \<open>populatedAppointment.user_id._id\<close> or
  \<open>populatedAppointment.doctor_id._id\<close> raises when the document or the reference is
  \<open>null\<close>; the \<open>catch\<close> block then answers 500, after the save.
\<close>

definition createdView :: "(int \<Rightarrow> string) \<Rightarrow> store \<Rightarrow> appointment \<Rightarrow> failure + apptView" where
  "createdView isoDate s a =
     (case findAppointmentById (appt_oid a) (appointments s) of
        None \<Rightarrow> Inl (500, ''Server error'')
      | Some p \<Rightarrow>
          (case (populateUser s p, populateDoctor s p) of
             (Some u, Some d) \<Rightarrow>
               Inr \<lparr>av_id = appt_oid a, av_date = isoDate (date a), av_time = time a,
                    av_status = status a, av_symptoms = Some (symptoms a),
                    av_notes = Some (appt_notes a),
                    av_patient =
                      \<lparr>pv_id = Some (user_oid u), pv_name = Some (user_name u),
                       pv_email = Some (user_email u), pv_phone = Some (user_phone u)\<rparr>,
                    av_doctor =
                      \<lparr>dv_id = Some (doctor_oid d),
                       dv_name = Some (orElse (map_option user_name (populateDoctorUser s p)) ''Unknown''),
                       dv_email = None, dv_phone = None,
                       dv_specialization = Some (orElse (Some (specialization d)) ''Unknown''),
                       dv_fees = None\<rparr>\<rparr>
           | _ \<Rightarrow> Inl (500, ''Server error'')))"

definition createAppointment ::
  "(string \<Rightarrow> int option) \<Rightarrow> (int \<Rightarrow> string) \<Rightarrow> objectId \<Rightarrow> auth \<Rightarrow> adminBookBody \<Rightarrow> store
     \<Rightarrow> (failure + apptView) \<times> store" where
  "createAppointment castDate isoDate newId rq b s =
     (if req_userRole rq \<noteq> ''Admin'' then
        (Inl (403, ''Only admins can access this endpoint''), s)
      else if falsy (ab_user_id b) \<or> falsy (ab_doctor_id b) \<or> falsy (ab_date b) \<or> falsy (ab_time b) then
        (Inl (400, ''User ID, Doctor ID, date, and time are required''), s)
      else
        let u = the (ab_user_id b); d = the (ab_doctor_id b);
            dt = the (ab_date b); tm = the (ab_time b) in
        if findUserById u (users s) = None then
          (Inl (404, ''User not found''), s)
        else if findDoctorById d (doctors s) = None then
          (Inl (404, ''Doctor not found''), s)
        else
          (case castDate dt of
             None \<Rightarrow> (Inl (500, ''Server error''), s)
           | Some t \<Rightarrow>
               if findSlot [''Pending'', ''Confirmed''] d t tm (appointments s) \<noteq> None then
                 (Inl (400, ''This time slot is already booked''), s)
               else
                 let a = \<lparr>appt_oid = newId, user_id = u, doctor_id = d, date = t, time = tm,
                           symptoms = orElse (ab_symptoms b) [],
                           appt_notes = orElse (ab_notes b) [],
                           status = orElse (ab_status b) ''Confirmed''\<rparr>;
                     s' = saveAppointment a s
                 in (createdView isoDate s' a, s')))"

section \<open>DELETE /admin/users/:id\<close>

text \<open>\<open>User.findByIdAndDelete(id)\<close> removes the first document with that \<open>_id\<close>.\<close>

fun deleteUserById :: "objectId \<Rightarrow> user list \<Rightarrow> user list" where
  "deleteUserById i [] = []"
| "deleteUserById i (u # us) = (if user_oid u = i then us else u # deleteUserById i us)"

text \<open>\<open>Appointment.deleteMany({ user_id: id })\<close>.\<close>

definition deleteAppointmentsOf :: "objectId \<Rightarrow> appointment list \<Rightarrow> appointment list" where
  "deleteAppointmentsOf i as = filter (\<lambda>a. user_id a \<noteq> i) as"

definition deleteUser :: "auth \<Rightarrow> objectId \<Rightarrow> store \<Rightarrow> (failure + string) \<times> store" where
  "deleteUser rq i s =
     (if req_userRole rq \<noteq> ''Admin'' then
        (Inl (403, ''Only admins can access this endpoint''), s)
      else if findUserById i (users s) = None then
        (Inl (404, ''User not found''), s)
      else
        (Inr ''User deleted successfully'',
         s\<lparr>appointments := deleteAppointmentsOf i (appointments s),
           users := deleteUserById i (users s)\<rparr>))"

section \<open>GET /doctor/dashboard\<close>

record doctorInfo =
  di_id :: objectId
  di_name :: string
  di_email :: string
  di_phone :: string
  di_address :: string
  di_specialization :: string
  di_qualification :: string
  di_experience :: int
  di_fees :: "number option"

record stats =
  todayAppointments :: nat
  totalPatients :: nat
  upcomingAppointments :: nat
  earnings :: number

text \<open>The number of this doctor's appointments that the earnings estimate counts.\<close>

definition completedCount :: "objectId \<Rightarrow> appointment list \<Rightarrow> nat" where
  "completedCount d as =
     length (filter (\<lambda>a. doctor_id a = d \<and> status a \<in> set [''Completed'', ''Done'', ''Approved'']) as)"

text \<open>
  The handler has no role check: it answers for whoever owns a doctor profile. The clock
  is read three times: \<open>dayStart\<close> and \<open>dayEnd\<close> are the local midnight and last
  millisecond of today, \<open>now\<close> the instant of the upcoming-appointments query. The
  earnings are \<open>completedCount * (doctor.fees || 0)\<close>, a product of two doubles; a count
  of documents is far below \<open>2\<^sup>5\<^sup>3\<close> and so is a double itself.
\<close>

definition dashboard ::
  "int \<Rightarrow> int \<Rightarrow> int \<Rightarrow> auth \<Rightarrow> store \<Rightarrow> (failure + doctorInfo \<times> stats) \<times> store" where
  "dashboard dayStart dayEnd now rq s =
     (case findDoctorByUserId (req_userId rq) (doctors s) of
        None \<Rightarrow> (Inl (404, ''Doctor profile not found''), s)
      | Some d \<Rightarrow>
          let u = findUserById (req_userId rq) (users s);
              mine = filter (\<lambda>a. doctor_id a = doctor_oid d) (appointments s);
              todayCount = length (filter (\<lambda>a. dayStart \<le> date a \<and> date a \<le> dayEnd \<and>
                                               status a \<noteq> ''Cancelled'') mine);
              uniquePatients = remdups (map user_id mine);
              upcoming = length (filter (\<lambda>a. now \<le> date a \<and>
                                             status a \<in> set [''Pending'', ''Confirmed'']) mine)
          in (Inr (\<lparr>di_id = doctor_oid d,
                     di_name = orElse (map_option user_name u) ''Doctor'',
                     di_email = orElse (map_option user_email u) [],
                     di_phone = orElse (map_option user_phone u) [],
                     di_address = orElse (map_option user_address u) [],
                     di_specialization = specialization d,
                     di_qualification = qualification d,
                     di_experience = experience d,
                     di_fees = fees d\<rparr>,
                   \<lparr>todayAppointments = todayCount,
                     totalPatients = length uniquePatients,
                     upcomingAppointments = upcoming,
                     earnings = multiply (Finite (real (completedCount (doctor_oid d) (appointments s))))
                                         (numOrZero (fees d))\<rparr>),
              s))"

section \<open>Sample data\<close>

text \<open>
  A small clinic used for the closed instances below: two patients, one doctor with a fee
  of 500, and the slot of 10 January 2025 (UTC midnight, 1736467200000 ms) at 10:00 AM.
\<close>

definition sampleCastDate :: "string \<Rightarrow> int option" where
  "sampleCastDate x = (if x = ''2025-01-10'' then Some 1736467200000 else None)"



definition sampleIsoDate :: "int \<Rightarrow> string" where
  "sampleIsoDate t = (if t = 1736467200000 then ''2025-01-10'' else ''2025-01-09'')"

definition samplePatient :: user where
  "samplePatient = \<lparr>user_oid = ''aaaaaaaaaaaaaaaaaaaaaaa1'', user_name = ''Pat'',
     user_email = ''pat@example.org'', user_phone = ''100'', user_address = ''1 Main St'',
     user_role = ''Patient''\<rparr>"

definition sampleDoctorUser :: user where
  "sampleDoctorUser = \<lparr>user_oid = ''aaaaaaaaaaaaaaaaaaaaaaa2'', user_name = ''Dee'',
     user_email = ''dee@example.org'', user_phone = ''200'', user_address = ''2 Main St'',
     user_role = ''Doctor''\<rparr>"

definition samplePatient2 :: user where
  "samplePatient2 = \<lparr>user_oid = ''aaaaaaaaaaaaaaaaaaaaaaa3'', user_name = ''Quinn'',
     user_email = ''quinn@example.org'', user_phone = ''300'', user_address = ''3 Main St'',
     user_role = ''Patient''\<rparr>"

definition sampleDoctor :: doctor where
  "sampleDoctor = \<lparr>doctor_oid = ''dddddddddddddddddddddd01'', userId = ''aaaaaaaaaaaaaaaaaaaaaaa2'',
     specialization = ''Cardiology'', qualification = ''MD'', experience = 7, fees = Some (Finite 500)\<rparr>"

text \<open>A doctor profile whose \<open>userId\<close> is the first patient's identity.\<close>

definition sampleOwnProfile :: doctor where
  "sampleOwnProfile = \<lparr>doctor_oid = ''dddddddddddddddddddddd02'', userId = ''aaaaaaaaaaaaaaaaaaaaaaa1'',
     specialization = ''Dermatology'', qualification = ''MD'', experience = 3, fees = Some (Finite 300)\<rparr>"

definition sampleStore :: store where
  "sampleStore = \<lparr>users = [samplePatient, sampleDoctorUser, samplePatient2],
     doctors = [sampleDoctor], appointments = [],
     admins = [], feedbacks = [], consultations = [], consultationMessages = []\<rparr>"

definition patientAuth :: auth where
  "patientAuth = \<lparr>req_userId = ''aaaaaaaaaaaaaaaaaaaaaaa1'', req_userRole = ''Patient''\<rparr>"

definition patient2Auth :: auth where
  "patient2Auth = \<lparr>req_userId = ''aaaaaaaaaaaaaaaaaaaaaaa3'', req_userRole = ''Patient''\<rparr>"

definition doctorAuth :: auth where
  "doctorAuth = \<lparr>req_userId = ''aaaaaaaaaaaaaaaaaaaaaaa2'', req_userRole = ''Doctor''\<rparr>"

definition adminAuth :: auth where
  "adminAuth = \<lparr>req_userId = ''aaaaaaaaaaaaaaaaaaaaaaa9'', req_userRole = ''Admin''\<rparr>"

definition sampleBody :: bookBody where
  "sampleBody = \<lparr>body_doctor_id = Some ''dddddddddddddddddddddd01'', body_date = Some ''2025-01-10'',
     body_time = Some ''10:00 AM'', body_symptoms = Some ''cough'', body_notes = None\<rparr>"

definition sampleOwnBody :: bookBody where
  "sampleOwnBody = \<lparr>body_doctor_id = Some ''dddddddddddddddddddddd02'', body_date = Some ''2025-01-10'',
     body_time = Some ''10:00 AM'', body_symptoms = None, body_notes = None\<rparr>"

definition sampleAdminBody :: adminBookBody where
  "sampleAdminBody = \<lparr>ab_user_id = Some ''aaaaaaaaaaaaaaaaaaaaaaa1'',
     ab_doctor_id = Some ''dddddddddddddddddddddd01'', ab_date = Some ''2025-01-10'',
     ab_time = Some ''10:00 AM'', ab_symptoms = None, ab_notes = None, ab_status = None\<rparr>"

definition apptPending :: appointment where
  "apptPending = \<lparr>appt_oid = ''bbbbbbbbbbbbbbbbbbbbbbb1'', user_id = ''aaaaaaaaaaaaaaaaaaaaaaa1'',
     doctor_id = ''dddddddddddddddddddddd01'', date = 1736467200000, time = ''10:00 AM'',
     symptoms = ''cough'', appt_notes = [], status = ''Pending''\<rparr>"

definition apptConfirmed :: appointment where
  "apptConfirmed = \<lparr>appt_oid = ''bbbbbbbbbbbbbbbbbbbbbbb2'', user_id = ''aaaaaaaaaaaaaaaaaaaaaaa3'',
     doctor_id = ''dddddddddddddddddddddd01'', date = 1736467200000, time = ''10:00 AM'',
     symptoms = [], appt_notes = [], status = ''Confirmed''\<rparr>"

definition apptCompleted :: appointment where
  "apptCompleted = \<lparr>appt_oid = ''bbbbbbbbbbbbbbbbbbbbbbb3'', user_id = ''aaaaaaaaaaaaaaaaaaaaaaa3'',
     doctor_id = ''dddddddddddddddddddddd01'', date = 1736467200000, time = ''11:00 AM'',
     symptoms = [], appt_notes = [], status = ''Completed''\<rparr>"

definition apptCompleted2 :: appointment where
  "apptCompleted2 = \<lparr>appt_oid = ''bbbbbbbbbbbbbbbbbbbbbbb8'', user_id = ''aaaaaaaaaaaaaaaaaaaaaaa1'',
     doctor_id = ''dddddddddddddddddddddd01'', date = 1736467200000, time = ''11:30 AM'',
     symptoms = [], appt_notes = [], status = ''Completed''\<rparr>"

definition apptCompleted3 :: appointment where
  "apptCompleted3 = \<lparr>appt_oid = ''bbbbbbbbbbbbbbbbbbbbbbb9'', user_id = ''aaaaaaaaaaaaaaaaaaaaaaa3'',
     doctor_id = ''dddddddddddddddddddddd01'', date = 1736380800000, time = ''02:00 PM'',
     symptoms = [], appt_notes = [], status = ''Completed''\<rparr>"

text \<open>An appointment of the day before, still pending.\<close>

definition apptOlder :: appointment where
  "apptOlder = \<lparr>appt_oid = ''bbbbbbbbbbbbbbbbbbbbbbb4'', user_id = ''aaaaaaaaaaaaaaaaaaaaaaa3'',
     doctor_id = ''dddddddddddddddddddddd01'', date = 1736380800000, time = ''09:00 AM'',
     symptoms = [], appt_notes = [], status = ''Pending''\<rparr>"

section \<open>Properties of patient booking\<close>

lemma findSlot_None_iff:
  "findSlot bl d t tm as = None \<longleftrightarrow> (\<forall>a \<in> set as. \<not> slotTaken bl d t tm a)"
  by (auto simp: findSlot_def find_None_iff)

lemma atSlot_empty_findSlot:
  "atSlot d t tm as = [] \<Longrightarrow> findSlot bl d t tm as = None"
  by (auto simp: findSlot_None_iff atSlot_def slotTaken_def filter_empty_conv)

text \<open>A well-formed request by a patient for a slot that the conflict query finds free.\<close>

lemma bookAppointment_free:
  assumes "req_userRole rq = ''Patient''"
    and "body_doctor_id b = Some d" and "body_date b = Some ds" and "body_time b = Some tm"
    and "d \<noteq> []" and "ds \<noteq> []" and "tm \<noteq> []"
    and "findDoctorById d (doctors s) \<noteq> None"
    and "castDate ds = Some t"
    and "findSlot [''Pending'', ''Upcoming''] d t tm (appointments s) = None"
  shows "bookAppointment castDate newId rq b s =
           (Inr \<lparr>booked_id = newId, booked_doctor_id = d, booked_date = t,
                  booked_time = tm, booked_status = ''Pending''\<rparr>,
            s\<lparr>appointments := appointments s @
               [\<lparr>appt_oid = newId, user_id = req_userId rq, doctor_id = d, date = t, time = tm,
                 symptoms = orElse (body_symptoms b) [], appt_notes = orElse (body_notes b) [],
                 status = ''Pending''\<rparr>]\<rparr>)"
  using assms by (simp add: bookAppointment_def falsy_def saveAppointment_def)

text \<open>The same request when the conflict query finds a document.\<close>

lemma bookAppointment_taken:
  assumes "req_userRole rq = ''Patient''"
    and "body_doctor_id b = Some d" and "body_date b = Some ds" and "body_time b = Some tm"
    and "d \<noteq> []" and "ds \<noteq> []" and "tm \<noteq> []"
    and "findDoctorById d (doctors s) \<noteq> None"
    and "castDate ds = Some t"
    and "findSlot [''Pending'', ''Upcoming''] d t tm (appointments s) \<noteq> None"
  shows "bookAppointment castDate newId rq b s =
           (Inl (400, ''This time slot is already booked''), s)"
  using assms by (simp add: bookAppointment_def falsy_def)

text \<open>
  Claim C1. Let no appointment exist for doctor \<open>d\<close>, date \<open>t\<close> and time \<open>tm\<close>. Two
  patient booking requests for that slot, run one after the other, go as follows: the first
  answers 201 with status \<open>Pending\<close> and appends its appointment to the collection; the
  second answers 400, "This time slot is already booked", and leaves the store as the first
  left it; afterwards the slot holds exactly the first request's appointment, which is
  \<open>Pending\<close>. The requests are well-formed: role \<open>Patient\<close>, the three required fields
  present and not empty, the doctor on file, and dates that cast to \<open>t\<close>.
\<close>

theorem book_twice_one_pending:
  assumes first: "req_userRole rq1 = ''Patient''" "body_doctor_id b1 = Some d"
      "body_date b1 = Some ds1" "body_time b1 = Some tm" "ds1 \<noteq> []" "castDate ds1 = Some t"
    and second: "req_userRole rq2 = ''Patient''" "body_doctor_id b2 = Some d"
      "body_date b2 = Some ds2" "body_time b2 = Some tm" "ds2 \<noteq> []" "castDate ds2 = Some t"
    and slot: "d \<noteq> []" "tm \<noteq> []" "findDoctorById d (doctors s) \<noteq> None"
    and free: "atSlot d t tm (appointments s) = []"
  shows "let r1 = bookAppointment castDate i1 rq1 b1 s;
             r2 = bookAppointment castDate i2 rq2 b2 (snd r1);
             a = \<lparr>appt_oid = i1, user_id = req_userId rq1, doctor_id = d, date = t, time = tm,
                  symptoms = orElse (body_symptoms b1) [], appt_notes = orElse (body_notes b1) [],
                  status = ''Pending''\<rparr>
         in fst r1 = Inr \<lparr>booked_id = i1, booked_doctor_id = d, booked_date = t,
                          booked_time = tm, booked_status = ''Pending''\<rparr>
          \<and> appointments (snd r1) = appointments s @ [a]
          \<and> r2 = (Inl (400, ''This time slot is already booked''), snd r1)
          \<and> atSlot d t tm (appointments (snd r2)) = [a]"
proof -
  define a where "a = \<lparr>appt_oid = i1, user_id = req_userId rq1, doctor_id = d, date = t, time = tm,
                  symptoms = orElse (body_symptoms b1) [], appt_notes = orElse (body_notes b1) [],
                  status = ''Pending''\<rparr>"
  define s1 where "s1 = s\<lparr>appointments := appointments s @ [a]\<rparr>"
  have none: "findSlot [''Pending'', ''Upcoming''] d t tm (appointments s) = None"
    using free by (rule atSlot_empty_findSlot)
  have r1: "bookAppointment castDate i1 rq1 b1 s =
      (Inr \<lparr>booked_id = i1, booked_doctor_id = d, booked_date = t,
             booked_time = tm, booked_status = ''Pending''\<rparr>, s1)"
    unfolding s1_def a_def
    using first(1-4) slot(1) first(5) slot(2,3) first(6) none by (rule bookAppointment_free)
  have held: "slotTaken [''Pending'', ''Upcoming''] d t tm a"
    by (simp add: slotTaken_def a_def)
  have taken: "findSlot [''Pending'', ''Upcoming''] d t tm (appointments s1) \<noteq> None"
    using held by (auto simp: findSlot_None_iff s1_def)
  have doc: "findDoctorById d (doctors s1) \<noteq> None"
    using slot(3) by (simp add: s1_def)
  have r2: "bookAppointment castDate i2 rq2 b2 s1 =
      (Inl (400, ''This time slot is already booked''), s1)"
    using second(1-4) slot(1) second(5) slot(2) doc second(6) taken by (rule bookAppointment_taken)
  have one: "atSlot d t tm (appointments s1) = [a]"
    using free by (simp add: atSlot_def s1_def a_def)
  show ?thesis
    using r1 r2 one by (simp add: Let_def s1_def a_def)
qed

text \<open>
  The first patient books the sample slot in the empty sample store, the second patient
  asks for the same slot.
\<close>

theorem book_twice_one_pending_witness:
  "let r1 = bookAppointment sampleCastDate ''bbbbbbbbbbbbbbbbbbbbbbb1'' patientAuth sampleBody sampleStore;
       r2 = bookAppointment sampleCastDate ''bbbbbbbbbbbbbbbbbbbbbbb5'' patient2Auth sampleBody (snd r1)
   in fst r1 = Inr \<lparr>booked_id = ''bbbbbbbbbbbbbbbbbbbbbbb1'',
                    booked_doctor_id = ''dddddddddddddddddddddd01'',
                    booked_date = 1736467200000, booked_time = ''10:00 AM'',
                    booked_status = ''Pending''\<rparr>
    \<and> appointments (snd r1) = [apptPending]
    \<and> r2 = (Inl (400, ''This time slot is already booked''), snd r1)
    \<and> atSlot ''dddddddddddddddddddddd01'' 1736467200000 ''10:00 AM'' (appointments (snd r2)) = [apptPending]"
proof -
  have first: "req_userRole patientAuth = ''Patient''"
      "body_doctor_id sampleBody = Some ''dddddddddddddddddddddd01''"
      "body_date sampleBody = Some ''2025-01-10''" "body_time sampleBody = Some ''10:00 AM''"
      "''2025-01-10'' \<noteq> []" "sampleCastDate ''2025-01-10'' = Some 1736467200000"
    by (simp_all add: patientAuth_def sampleBody_def sampleCastDate_def)
  have second: "req_userRole patient2Auth = ''Patient''"
    by (simp add: patient2Auth_def)
  have slot: "''dddddddddddddddddddddd01'' \<noteq> []" "''10:00 AM'' \<noteq> []"
      "findDoctorById ''dddddddddddddddddddddd01'' (doctors sampleStore) \<noteq> None"
    by (simp_all add: findDoctorById_def sampleStore_def sampleDoctor_def)
  have free: "atSlot ''dddddddddddddddddddddd01'' 1736467200000 ''10:00 AM'' (appointments sampleStore) = []"
    by (simp add: atSlot_def sampleStore_def)
  have made: "\<lparr>appt_oid = ''bbbbbbbbbbbbbbbbbbbbbbb1'', user_id = req_userId patientAuth,
        doctor_id = ''dddddddddddddddddddddd01'', date = 1736467200000, time = ''10:00 AM'',
        symptoms = orElse (body_symptoms sampleBody) [],
        appt_notes = orElse (body_notes sampleBody) [], status = ''Pending''\<rparr> = apptPending"
    by (simp add: apptPending_def patientAuth_def sampleBody_def orElse_def)
  have empty: "appointments sampleStore = []"
    by (simp add: sampleStore_def)
  show ?thesis
    using book_twice_one_pending [where castDate = sampleCastDate
        and ?i1.0 = "''bbbbbbbbbbbbbbbbbbbbbbb1''" and ?i2.0 = "''bbbbbbbbbbbbbbbbbbbbbbb5''",
        OF first second first(2-6) slot free]
    unfolding Let_def made empty append_Nil .
qed

text \<open>
  Claim C2. The claim is that an existing appointment of the slot with status \<open>Pending\<close>
  or \<open>Confirmed\<close> makes a patient booking fail. The conflict query of the patient route
  lists \<open>Pending\<close> and \<open>Upcoming\<close>: with a \<open>Confirmed\<close> appointment already in the
  sample slot, the first patient's request for that slot answers 201 and the slot then
  holds two appointments, one \<open>Confirmed\<close> and one \<open>Pending\<close>.
\<close>

theorem confirmed_slot_booked_again:
  "bookAppointment sampleCastDate ''bbbbbbbbbbbbbbbbbbbbbbb1'' patientAuth sampleBody
      (sampleStore\<lparr>appointments := [apptConfirmed]\<rparr>)
     = (Inr \<lparr>booked_id = ''bbbbbbbbbbbbbbbbbbbbbbb1'',
              booked_doctor_id = ''dddddddddddddddddddddd01'',
              booked_date = 1736467200000, booked_time = ''10:00 AM'',
              booked_status = ''Pending''\<rparr>,
        sampleStore\<lparr>appointments := [apptConfirmed, apptPending]\<rparr>)
   \<and> atSlot ''dddddddddddddddddddddd01'' 1736467200000 ''10:00 AM'' [apptConfirmed, apptPending]
       = [apptConfirmed, apptPending]"
  by (simp add: Let_def bookAppointment_def falsy_def findDoctorById_def findSlot_def slotTaken_def
      saveAppointment_def orElse_def atSlot_def sampleCastDate_def patientAuth_def sampleBody_def
      sampleStore_def sampleDoctor_def apptConfirmed_def apptPending_def)

text \<open>
  Claim C8, as stated: a request by an identity that owns the requested doctor profile
  answers 403 and creates nothing. The self-booking comparison of the handler is guarded
  by \<open>req.userRole === "Doctor"\<close> and stands behind the check that the role is \<open>Patient\<close>,
  so it is never made. The first patient, who owns the profile \<open>sampleOwnProfile\<close>, books
  that very profile: the request answers 201 and the appointment is stored.
\<close>

theorem self_booking_counterexample:
  "map_option doctor_oid (findDoctorByUserId (req_userId patientAuth)
       (doctors (sampleStore\<lparr>doctors := [sampleDoctor, sampleOwnProfile]\<rparr>)))
     = body_doctor_id sampleOwnBody
   \<and> bookAppointment sampleCastDate ''bbbbbbbbbbbbbbbbbbbbbbb1'' patientAuth sampleOwnBody
        (sampleStore\<lparr>doctors := [sampleDoctor, sampleOwnProfile]\<rparr>)
     = (Inr \<lparr>booked_id = ''bbbbbbbbbbbbbbbbbbbbbbb1'',
              booked_doctor_id = ''dddddddddddddddddddddd02'',
              booked_date = 1736467200000, booked_time = ''10:00 AM'',
              booked_status = ''Pending''\<rparr>,
        sampleStore\<lparr>doctors := [sampleDoctor, sampleOwnProfile],
          appointments := [\<lparr>appt_oid = ''bbbbbbbbbbbbbbbbbbbbbbb1'',
             user_id = ''aaaaaaaaaaaaaaaaaaaaaaa1'', doctor_id = ''dddddddddddddddddddddd02'',
             date = 1736467200000, time = ''10:00 AM'', symptoms = [], appt_notes = [],
             status = ''Pending''\<rparr>]\<rparr>)"
  by (simp add: Let_def bookAppointment_def falsy_def findDoctorById_def findDoctorByUserId_def
      findSlot_def saveAppointment_def orElse_def sampleCastDate_def patientAuth_def
      sampleOwnBody_def sampleStore_def sampleDoctor_def sampleOwnProfile_def)

text \<open>
  Claim C8, amended. A request to the patient booking route by an identity whose role is
  not \<open>Patient\<close>, a doctor in particular, answers 403, "Only patients can book
  appointments", and leaves the store unchanged, whatever the body asks for and whatever
  the slot holds.
\<close>

theorem non_patient_refused:
  assumes "req_userRole rq \<noteq> ''Patient''"
  shows "bookAppointment castDate newId rq b s =
           (Inl (403, ''Only patients can book appointments''), s)"
  using assms by (simp add: bookAppointment_def)

text \<open>The sample doctor asks for a free slot with the doctor's own profile.\<close>

theorem non_patient_refused_witness:
  "req_userRole doctorAuth \<noteq> ''Patient''
   \<and> map_option doctor_oid (findDoctorByUserId (req_userId doctorAuth) (doctors sampleStore))
       = body_doctor_id sampleBody
   \<and> bookAppointment sampleCastDate ''bbbbbbbbbbbbbbbbbbbbbbb1'' doctorAuth sampleBody sampleStore
       = (Inl (403, ''Only patients can book appointments''), sampleStore)"
proof -
  have role: "req_userRole doctorAuth \<noteq> ''Patient''"
    by (simp add: doctorAuth_def)
  have own: "map_option doctor_oid (findDoctorByUserId (req_userId doctorAuth) (doctors sampleStore))
       = body_doctor_id sampleBody"
    by (simp add: findDoctorByUserId_def doctorAuth_def sampleStore_def sampleDoctor_def sampleBody_def)
  show ?thesis
    using role own non_patient_refused [OF role] by simp
qed

section \<open>Properties of admin booking\<close>

lemma createdView_not_booked:
  "createdView isoDate s a \<noteq> Inl (400, ''This time slot is already booked'')"
  by (simp add: createdView_def split: option.splits prod.splits)

lemma findAppointmentById_fresh:
  "findAppointmentById (appt_oid a) as = None \<Longrightarrow>
     findAppointmentById (appt_oid a) (as @ [a]) = Some a"
  by (induction as) (auto simp: findAppointmentById_def split: if_splits)

text \<open>With a fresh \<open>_id\<close> the document read back is the one just saved, and the answer is 201.\<close>

lemma createdView_fresh:
  assumes "findAppointmentById (appt_oid a) (appointments s) = None"
    and "findUserById (user_id a) (users s) \<noteq> None"
    and "findDoctorById (doctor_id a) (doctors s) \<noteq> None"
  shows "\<exists>v. createdView isoDate (saveAppointment a s) a = Inr v
             \<and> av_status v = status a \<and> av_id v = appt_oid a"
  using assms
  by (auto simp: createdView_def saveAppointment_def findAppointmentById_fresh
        populateUser_def populateDoctor_def split: option.splits)

text \<open>
  Claim C3. For an admin request that passes the checks before the conflict query (the
  four required fields present and not empty, user and doctor on file, a date that casts
  to \<open>t\<close>): the request is refused as already booked, with the store unchanged, exactly
  when some appointment of \<open>(d, t, tm)\<close> has status \<open>Pending\<close> or \<open>Confirmed\<close>;
  otherwise one appointment is appended, with the status \<open>st\<close> that the handler
  computes and without any look at other statuses, and with a fresh \<open>_id\<close> the answer
  shows it. \<open>st\<close> is \<open>Confirmed\<close> when the body has no status and is the supplied one for
  each of the six enumerated values.
\<close>

theorem createAppointment_conflict_and_status:
  assumes admin: "req_userRole rq = ''Admin''"
    and body: "ab_user_id b = Some u" "ab_doctor_id b = Some d"
      "ab_date b = Some ds" "ab_time b = Some tm"
    and given: "u \<noteq> []" "d \<noteq> []" "ds \<noteq> []" "tm \<noteq> []"
    and known: "findUserById u (users s) \<noteq> None" "findDoctorById d (doctors s) \<noteq> None"
    and cast: "castDate ds = Some t"
  shows "let r = createAppointment castDate isoDate newId rq b s;
             held = (\<exists>a \<in> set (appointments s). doctor_id a = d \<and> date a = t \<and> time a = tm
                       \<and> status a \<in> {''Pending'', ''Confirmed''});
             st = (case ab_status b of None \<Rightarrow> ''Confirmed''
                   | Some v \<Rightarrow> if v = [] then ''Confirmed'' else v)
         in (held \<longrightarrow> r = (Inl (400, ''This time slot is already booked''), s))
          \<and> (\<not> held \<longrightarrow>
                fst r \<noteq> Inl (400, ''This time slot is already booked'')
              \<and> snd r = s\<lparr>appointments := appointments s @
                   [\<lparr>appt_oid = newId, user_id = u, doctor_id = d, date = t, time = tm,
                     symptoms = orElse (ab_symptoms b) [], appt_notes = orElse (ab_notes b) [],
                     status = st\<rparr>]\<rparr>
              \<and> (findAppointmentById newId (appointments s) = None \<longrightarrow>
                    (\<exists>v. fst r = Inr v \<and> av_id v = newId \<and> av_status v = st)))
          \<and> (ab_status b = None \<longrightarrow> st = ''Confirmed'')
          \<and> (\<forall>v \<in> {''Pending'', ''Confirmed'', ''Completed'', ''Cancelled'', ''Rejected'', ''Expired''}.
                ab_status b = Some v \<longrightarrow> st = v)"
proof -
  define st where "st = (case ab_status b of None \<Rightarrow> ''Confirmed''
                   | Some v \<Rightarrow> if v = [] then ''Confirmed'' else v)"
  define held where "held = (\<exists>a \<in> set (appointments s). doctor_id a = d \<and> date a = t \<and> time a = tm
                       \<and> status a \<in> {''Pending'', ''Confirmed''})"
  define a where "a = \<lparr>appt_oid = newId, user_id = u, doctor_id = d, date = t, time = tm,
                     symptoms = orElse (ab_symptoms b) [], appt_notes = orElse (ab_notes b) [],
                     status = st\<rparr>"
  let ?r = "createAppointment castDate isoDate newId rq b s"
  have st_orElse: "orElse (ab_status b) ''Confirmed'' = st"
    by (simp add: st_def orElse_def)
  have held_iff: "held \<longleftrightarrow> findSlot [''Pending'', ''Confirmed''] d t tm (appointments s) \<noteq> None"
    by (auto simp: held_def findSlot_None_iff slotTaken_def)
  from known obtain u0 d0
    where found: "findUserById u (users s) = Some u0" "findDoctorById d (doctors s) = Some d0"
    by auto
  have blocked: "?r = (Inl (400, ''This time slot is already booked''), s)" if held
    using that admin body given found cast
    by (simp add: createAppointment_def falsy_def held_iff)
  have made: "?r = (createdView isoDate (saveAppointment a s) a, saveAppointment a s)" if "\<not> held"
    using that admin body given found cast
    by (simp add: createAppointment_def falsy_def held_iff a_def st_orElse Let_def)
  have answer: "\<exists>v. createdView isoDate (saveAppointment a s) a = Inr v
                   \<and> av_id v = newId \<and> av_status v = st"
    if "findAppointmentById newId (appointments s) = None"
    using createdView_fresh[of a s isoDate] that known by (auto simp: a_def)
  have omitted: "ab_status b = None \<longrightarrow> st = ''Confirmed''"
    by (simp add: st_def)
  have supplied: "\<forall>v \<in> {''Pending'', ''Confirmed'', ''Completed'', ''Cancelled'', ''Rejected'', ''Expired''}.
                ab_status b = Some v \<longrightarrow> st = v"
    by (auto simp: st_def)
  have free: "\<not> held \<longrightarrow>
                fst ?r \<noteq> Inl (400, ''This time slot is already booked'')
              \<and> snd ?r = s\<lparr>appointments := appointments s @ [a]\<rparr>
              \<and> (findAppointmentById newId (appointments s) = None \<longrightarrow>
                    (\<exists>v. fst ?r = Inr v \<and> av_id v = newId \<and> av_status v = st))"
    using made answer by (simp add: createdView_not_booked saveAppointment_def)
  show ?thesis
    unfolding Let_def st_def[symmetric] held_def[symmetric] a_def[symmetric]
    using blocked free omitted supplied by blast
qed

text \<open>
  Three runs on the sample data: the admin books the free sample slot without a status;
  the same with status \<open>Rejected\<close>; and the same body when the slot already holds a
  \<open>Confirmed\<close> appointment.
\<close>

theorem createAppointment_conflict_and_status_witness:
  "snd (createAppointment sampleCastDate sampleIsoDate ''bbbbbbbbbbbbbbbbbbbbbbb6'' adminAuth
          sampleAdminBody sampleStore)
     = sampleStore\<lparr>appointments :=
         [\<lparr>appt_oid = ''bbbbbbbbbbbbbbbbbbbbbbb6'', user_id = ''aaaaaaaaaaaaaaaaaaaaaaa1'',
           doctor_id = ''dddddddddddddddddddddd01'', date = 1736467200000, time = ''10:00 AM'',
           symptoms = [], appt_notes = [], status = ''Confirmed''\<rparr>]\<rparr>
   \<and> snd (createAppointment sampleCastDate sampleIsoDate ''bbbbbbbbbbbbbbbbbbbbbbb6'' adminAuth
          (sampleAdminBody\<lparr>ab_status := Some ''Rejected''\<rparr>) sampleStore)
     = sampleStore\<lparr>appointments :=
         [\<lparr>appt_oid = ''bbbbbbbbbbbbbbbbbbbbbbb6'', user_id = ''aaaaaaaaaaaaaaaaaaaaaaa1'',
           doctor_id = ''dddddddddddddddddddddd01'', date = 1736467200000, time = ''10:00 AM'',
           symptoms = [], appt_notes = [], status = ''Rejected''\<rparr>]\<rparr>
   \<and> createAppointment sampleCastDate sampleIsoDate ''bbbbbbbbbbbbbbbbbbbbbbb6'' adminAuth
          sampleAdminBody (sampleStore\<lparr>appointments := [apptConfirmed]\<rparr>)
     = (Inl (400, ''This time slot is already booked''),
        sampleStore\<lparr>appointments := [apptConfirmed]\<rparr>)"
proof -
  have admin: "req_userRole adminAuth = ''Admin''"
    by (simp add: adminAuth_def)
  have body: "ab_user_id b = Some ''aaaaaaaaaaaaaaaaaaaaaaa1''"
      "ab_doctor_id b = Some ''dddddddddddddddddddddd01''"
      "ab_date b = Some ''2025-01-10''" "ab_time b = Some ''10:00 AM''"
    if "b = sampleAdminBody \<or> b = sampleAdminBody\<lparr>ab_status := Some ''Rejected''\<rparr>" for b
    using that by (auto simp: sampleAdminBody_def)
  have given: "''aaaaaaaaaaaaaaaaaaaaaaa1'' \<noteq> []" "''dddddddddddddddddddddd01'' \<noteq> []"
      "''2025-01-10'' \<noteq> []" "''10:00 AM'' \<noteq> []"
    by simp_all
  have known: "findUserById ''aaaaaaaaaaaaaaaaaaaaaaa1'' (users (sampleStore\<lparr>appointments := as\<rparr>)) \<noteq> None"
      "findDoctorById ''dddddddddddddddddddddd01'' (doctors (sampleStore\<lparr>appointments := as\<rparr>)) \<noteq> None"
    for as
    by (simp_all add: findUserById_def findDoctorById_def sampleStore_def samplePatient_def
        sampleDoctor_def)
  have cast: "sampleCastDate ''2025-01-10'' = Some 1736467200000"
    by (simp add: sampleCastDate_def)
  have same: "sampleStore\<lparr>appointments := []\<rparr> = sampleStore"
    by (simp add: sampleStore_def)
  note run = createAppointment_conflict_and_status [where castDate = sampleCastDate
      and isoDate = sampleIsoDate and newId = "''bbbbbbbbbbbbbbbbbbbbbbb6''",
      OF admin body given known cast]
  have one: "snd (createAppointment sampleCastDate sampleIsoDate ''bbbbbbbbbbbbbbbbbbbbbbb6'' adminAuth
          sampleAdminBody sampleStore)
     = sampleStore\<lparr>appointments :=
         [\<lparr>appt_oid = ''bbbbbbbbbbbbbbbbbbbbbbb6'', user_id = ''aaaaaaaaaaaaaaaaaaaaaaa1'',
           doctor_id = ''dddddddddddddddddddddd01'', date = 1736467200000, time = ''10:00 AM'',
           symptoms = [], appt_notes = [], status = ''Confirmed''\<rparr>]\<rparr>"
    using run [of sampleAdminBody "[]"]
    by (simp add: same Let_def) (simp add: sampleStore_def sampleAdminBody_def orElse_def)
  have two: "snd (createAppointment sampleCastDate sampleIsoDate ''bbbbbbbbbbbbbbbbbbbbbbb6'' adminAuth
          (sampleAdminBody\<lparr>ab_status := Some ''Rejected''\<rparr>) sampleStore)
     = sampleStore\<lparr>appointments :=
         [\<lparr>appt_oid = ''bbbbbbbbbbbbbbbbbbbbbbb6'', user_id = ''aaaaaaaaaaaaaaaaaaaaaaa1'',
           doctor_id = ''dddddddddddddddddddddd01'', date = 1736467200000, time = ''10:00 AM'',
           symptoms = [], appt_notes = [], status = ''Rejected''\<rparr>]\<rparr>"
    using run [of "sampleAdminBody\<lparr>ab_status := Some ''Rejected''\<rparr>" "[]"]
    by (simp add: same Let_def) (simp add: sampleStore_def sampleAdminBody_def orElse_def)
  have three: "createAppointment sampleCastDate sampleIsoDate ''bbbbbbbbbbbbbbbbbbbbbbb6'' adminAuth
          sampleAdminBody (sampleStore\<lparr>appointments := [apptConfirmed]\<rparr>)
     = (Inl (400, ''This time slot is already booked''),
        sampleStore\<lparr>appointments := [apptConfirmed]\<rparr>)"
    using run [of sampleAdminBody "[apptConfirmed]"]
    by (simp add: Let_def apptConfirmed_def)
  show ?thesis
    using one two three by simp
qed

section \<open>Properties of the expiry sweep\<close>

lemma updateManyExpired_length: "length (updateManyExpired now as) = length as"
  by (simp add: updateManyExpired_def)

lemma expire_not_stale: "\<not> stale now (expire a)"
  by (simp add: stale_def expire_def)

lemma stale_changes: "stale now a \<Longrightarrow> expire a \<noteq> a"
proof
  assume st: "stale now a" and eq: "expire a = a"
  from eq have "status (expire a) = status a" by simp
  then have "status a = ''Expired''" by (simp add: expire_def)
  with st show False by (simp add: stale_def)
qed

text \<open>Every matched document is changed, so \<open>modifiedCount\<close> is the number of matches.\<close>

lemma modifiedCount_eq: "modifiedCount now as = length (filter (stale now) as)"
proof -
  have "(\<lambda>a. stale now a \<and> expire a \<noteq> a) = stale now"
    using stale_changes by blast
  then show ?thesis by (simp add: modifiedCount_def)
qed

lemma swept_past_terminal:
  assumes "a \<in> set (updateManyExpired now as)" and "date a < now"
  shows "status a \<in> {''Completed'', ''Cancelled'', ''Expired''}"
proof -
  from assms(1) obtain b where "b \<in> set as" and a: "a = (if stale now b then expire b else b)"
    by (auto simp: updateManyExpired_def)
  show ?thesis
  proof (cases "stale now b")
    case True
    with a have "a = expire b" by simp
    then show ?thesis by (simp add: expire_def)
  next
    case False
    with a have "a = b" by simp
    with False assms(2) show ?thesis by (simp add: stale_def)
  qed
qed

text \<open>
  Claim C4. The sweep keeps the collection's length and order. For the appointment at any
  position whose date is earlier than the current instant: if it is \<open>Pending\<close>, the
  sweep leaves it with status \<open>Expired\<close> and its other fields as they were; if it is
  \<open>Completed\<close>, \<open>Cancelled\<close> or \<open>Expired\<close>, the sweep leaves it unchanged.
\<close>

theorem sweep_expires_pending:
  assumes "i < length (appointments s)" and "date (appointments s ! i) < now"
  shows "length (appointments (sweep now s)) = length (appointments s)
       \<and> (status (appointments s ! i) = ''Pending'' \<longrightarrow>
            appointments (sweep now s) ! i = (appointments s ! i)\<lparr>status := ''Expired''\<rparr>)
       \<and> (status (appointments s ! i) \<in> {''Completed'', ''Cancelled'', ''Expired''} \<longrightarrow>
            appointments (sweep now s) ! i = appointments s ! i)"
  using assms by (simp add: sweep_def updateManyExpired_def stale_def expire_def)

text \<open>
  A sweep on 10 January 2025 at 09:06:40 UTC over the pending appointment of the day
  before and the completed one of that midnight.
\<close>

theorem sweep_expires_pending_witness:
  "appointments (sweep 1736500000000 (sampleStore\<lparr>appointments := [apptOlder, apptCompleted]\<rparr>))
     = [apptOlder\<lparr>status := ''Expired''\<rparr>, apptCompleted]"
proof -
  let ?s = "sampleStore\<lparr>appointments := [apptOlder, apptCompleted]\<rparr>"
  have first: "0 < length (appointments ?s)" "date (appointments ?s ! 0) < 1736500000000"
      "status (appointments ?s ! 0) = ''Pending''"
    by (simp_all add: apptOlder_def)
  have second: "1 < length (appointments ?s)" "date (appointments ?s ! 1) < 1736500000000"
      "status (appointments ?s ! 1) \<in> {''Completed'', ''Cancelled'', ''Expired''}"
    by (simp_all add: apptCompleted_def)
  have len: "length (appointments (sweep 1736500000000 ?s)) = 2"
    using sweep_expires_pending [OF first(1,2)] by simp
  have at0: "appointments (sweep 1736500000000 ?s) ! 0 = apptOlder\<lparr>status := ''Expired''\<rparr>"
    using sweep_expires_pending [OF first(1,2), THEN conjunct2, THEN conjunct1, THEN mp, OF first(3)]
    by simp
  have at1: "appointments (sweep 1736500000000 ?s) ! 1 = apptCompleted"
    using sweep_expires_pending [OF second(1,2), THEN conjunct2, THEN conjunct2, THEN mp, OF second(3)]
    by simp
  show ?thesis
  proof (rule nth_equalityI)
    show "length (appointments (sweep 1736500000000 ?s))
        = length [apptOlder\<lparr>status := ''Expired''\<rparr>, apptCompleted]"
      using len by simp
  next
    fix i assume "i < length (appointments (sweep 1736500000000 ?s))"
    then have "i = 0 \<or> i = 1" using len by auto
    then show "appointments (sweep 1736500000000 ?s) ! i
        = [apptOlder\<lparr>status := ''Expired''\<rparr>, apptCompleted] ! i"
      using at0 at1 by auto
  qed
qed

lemma set_insertDesc: "set (insertDesc a as) = insert a (set as)"
  by (induction as) auto

lemma set_sortDesc: "set (sortDesc as) = set as"
  by (induction as) (simp_all add: sortDesc_def set_insertDesc)

lemma length_insertDesc: "length (insertDesc a as) = Suc (length as)"
  by (induction as) auto

lemma length_sortDesc: "length (sortDesc as) = length as"
  by (induction as) (simp_all add: sortDesc_def length_insertDesc)

text \<open>
  Claim C5. For an admin, the list route leaves the store as the sweep at the current
  instant leaves it, so every stored appointment dated before that instant is
  \<open>Completed\<close>, \<open>Cancelled\<close> or \<open>Expired\<close>. The answer is read from the swept store: it
  has one entry for each stored appointment, each showing the identifier and the status
  that its appointment has after the sweep, hence one of the three statuses when the
  appointment is dated before the current instant.
\<close>

theorem list_sweeps_first:
  assumes "req_userRole rq = ''Admin''"
  shows "snd (listAppointments now isoDate rq s) = sweep now s
       \<and> (\<forall>a \<in> set (appointments (snd (listAppointments now isoDate rq s))).
             date a < now \<longrightarrow> status a \<in> {''Completed'', ''Cancelled'', ''Expired''})
       \<and> (\<exists>views. fst (listAppointments now isoDate rq s) = Inr (views, length (appointments s))
             \<and> length views = length (appointments s)
             \<and> set views = formatAppointment isoDate (sweep now s) ` set (appointments (sweep now s))
             \<and> (\<forall>v \<in> set views. \<exists>a \<in> set (appointments (sweep now s)).
                   av_id v = appt_oid a \<and> av_status v = status a
                 \<and> (date a < now \<longrightarrow> av_status v \<in> {''Completed'', ''Cancelled'', ''Expired''})))"
proof -
  let ?s' = "sweep now s"
  let ?views = "map (formatAppointment isoDate ?s') (sortDesc (appointments ?s'))"
  have len: "length (appointments ?s') = length (appointments s)"
    by (simp add: sweep_def updateManyExpired_length)
  have run: "listAppointments now isoDate rq s = (Inr (?views, length ?views), ?s')"
    using assms by (simp add: listAppointments_def Let_def)
  have past: "\<forall>a \<in> set (appointments ?s'). date a < now \<longrightarrow>
      status a \<in> {''Completed'', ''Cancelled'', ''Expired''}"
    using swept_past_terminal by (simp add: sweep_def)
  have lv: "length ?views = length (appointments s)"
    by (simp add: length_sortDesc len)
  have sv: "set ?views = formatAppointment isoDate ?s' ` set (appointments ?s')"
    by (simp add: set_sortDesc)
  have each: "\<forall>v \<in> set ?views. \<exists>a \<in> set (appointments ?s').
      av_id v = appt_oid a \<and> av_status v = status a
      \<and> (date a < now \<longrightarrow> av_status v \<in> {''Completed'', ''Cancelled'', ''Expired''})"
  proof
    fix v assume "v \<in> set ?views"
    then obtain a where a: "a \<in> set (appointments ?s')" and v: "v = formatAppointment isoDate ?s' a"
      using sv by auto
    have "av_id v = appt_oid a \<and> av_status v = status a"
      using v by (simp add: formatAppointment_def Let_def)
    with a past show "\<exists>a \<in> set (appointments ?s').
      av_id v = appt_oid a \<and> av_status v = status a
      \<and> (date a < now \<longrightarrow> av_status v \<in> {''Completed'', ''Cancelled'', ''Expired''})"
      by auto
  qed
  show ?thesis
    unfolding run fst_conv snd_conv
    using past lv sv each by (intro conjI exI[of _ ?views]) simp_all
qed

text \<open>
  The admin lists a store that holds the pending appointment of the day before: the store
  afterwards and the one entry of the answer show it \<open>Expired\<close>.
\<close>

theorem list_sweeps_first_witness:
  "req_userRole adminAuth = ''Admin''
   \<and> map status (appointments (snd (listAppointments 1736500000000 sampleIsoDate adminAuth
        (sampleStore\<lparr>appointments := [apptOlder]\<rparr>)))) = [''Expired'']
   \<and> (\<exists>views. fst (listAppointments 1736500000000 sampleIsoDate adminAuth
        (sampleStore\<lparr>appointments := [apptOlder]\<rparr>)) = Inr (views, 1)
         \<and> map av_status views = [''Expired''])"
proof -
  let ?s = "sampleStore\<lparr>appointments := [apptOlder]\<rparr>"
  let ?r = "listAppointments 1736500000000 sampleIsoDate adminAuth ?s"
  have admin: "req_userRole adminAuth = ''Admin''"
    by (simp add: adminAuth_def)
  note run = list_sweeps_first [OF admin, of "1736500000000" sampleIsoDate ?s]
  have swept: "appointments (sweep 1736500000000 ?s) = [apptOlder\<lparr>status := ''Expired''\<rparr>]"
    by (simp add: sweep_def updateManyExpired_def stale_def expire_def apptOlder_def)
  have stored: "map status (appointments (snd ?r)) = [''Expired'']"
    using run swept by simp
  from run obtain views where views: "fst ?r = Inr (views, length (appointments ?s))"
      "length views = length (appointments ?s)"
      "\<forall>v \<in> set views. \<exists>a \<in> set (appointments (sweep 1736500000000 ?s)).
          av_id v = appt_oid a \<and> av_status v = status a
        \<and> (date a < 1736500000000 \<longrightarrow> av_status v \<in> {''Completed'', ''Cancelled'', ''Expired''})"
    by blast
  from views(2) obtain v where v: "views = [v]"
    by (cases views) auto
  with views(3) swept have "av_status v = ''Expired''" by simp
  with views(1) v have shown: "\<exists>views. fst ?r = Inr (views, 1) \<and> map av_status views = [''Expired'']"
    by simp
  from admin stored shown show ?thesis by (intro conjI)
qed

lemma updateManyExpired_settled:
  assumes "\<forall>a \<in> set as. stale now' a \<longrightarrow> date a < now"
  shows "updateManyExpired now' (updateManyExpired now as) = updateManyExpired now as"
proof -
  have "\<And>a. a \<in> set as \<Longrightarrow>
      (if stale now' (if stale now a then expire a else a)
       then expire (if stale now a then expire a else a)
       else (if stale now a then expire a else a)) = (if stale now a then expire a else a)"
    using assms by (auto simp: expire_not_stale) (auto simp: stale_def)
  then show ?thesis by (simp add: updateManyExpired_def)
qed

lemma modifiedCount_settled:
  assumes "\<forall>a \<in> set as. stale now' a \<longrightarrow> date a < now"
  shows "modifiedCount now' (updateManyExpired now as) = 0"
proof -
  have "\<And>a. a \<in> set as \<Longrightarrow> \<not> stale now' (if stale now a then expire a else a)"
    using assms by (auto simp: expire_not_stale) (auto simp: stale_def)
  then show ?thesis
    by (simp add: modifiedCount_eq updateManyExpired_def filter_empty_conv)
qed

text \<open>
  Claim C6, as stated: a second sweep right after the first, with no write in between,
  changes nothing and reports zero. Each run reads the clock anew. The store holds the
  pending appointment of 9 January and the pending one of 10 January, 00:00:00 UTC. A
  first sweep one second before that midnight reports 1; a second sweep one second after
  it, with no write in between, reports 1 again and changes the store.
\<close>

theorem markExpired_twice_counterexample:
  "fst (markExpired 1736467199000 adminAuth (sampleStore\<lparr>appointments := [apptOlder, apptPending]\<rparr>))
     = Inr 1
   \<and> fst (markExpired 1736467201000 adminAuth
        (snd (markExpired 1736467199000 adminAuth
           (sampleStore\<lparr>appointments := [apptOlder, apptPending]\<rparr>)))) = Inr 1
   \<and> snd (markExpired 1736467201000 adminAuth
        (snd (markExpired 1736467199000 adminAuth
           (sampleStore\<lparr>appointments := [apptOlder, apptPending]\<rparr>))))
     \<noteq> snd (markExpired 1736467199000 adminAuth
           (sampleStore\<lparr>appointments := [apptOlder, apptPending]\<rparr>))"
  by (simp add: markExpired_def sweep_def updateManyExpired_def modifiedCount_def stale_def
      expire_def adminAuth_def apptOlder_def apptPending_def sampleStore_def)

text \<open>
  Claim C6, amended. Let the first sweep run at the instant \<open>now\<close> and the second at
  \<open>now'\<close>, with no write in between, and let every appointment that is stale at \<open>now'\<close>
  be dated before \<open>now\<close>; this holds in particular when both runs read the same instant.
  Then the second run reports zero modified records and leaves the store as the first run
  left it.
\<close>

theorem markExpired_twice:
  assumes "req_userRole rq = ''Admin''"
    and "\<forall>a \<in> set (appointments s). stale now' a \<longrightarrow> date a < now"
  shows "markExpired now' rq (snd (markExpired now rq s)) = (Inr 0, snd (markExpired now rq s))"
  using assms
  by (simp add: markExpired_def sweep_def updateManyExpired_settled modifiedCount_settled)

text \<open>
  Two sweeps on 10 January 2025, at 00:00:01 and at 09:06:40 UTC, over the two pending
  appointments of the counterexample: the first run expires both, the second reports zero.
\<close>

theorem markExpired_twice_witness:
  "fst (markExpired 1736467201000 adminAuth (sampleStore\<lparr>appointments := [apptOlder, apptPending]\<rparr>))
     = Inr 2
   \<and> markExpired 1736500000000 adminAuth
        (snd (markExpired 1736467201000 adminAuth
           (sampleStore\<lparr>appointments := [apptOlder, apptPending]\<rparr>)))
     = (Inr 0, snd (markExpired 1736467201000 adminAuth
           (sampleStore\<lparr>appointments := [apptOlder, apptPending]\<rparr>)))"
proof -
  let ?s = "sampleStore\<lparr>appointments := [apptOlder, apptPending]\<rparr>"
  have admin: "req_userRole adminAuth = ''Admin''"
    by (simp add: adminAuth_def)
  have past: "\<forall>a \<in> set (appointments ?s). stale 1736500000000 a \<longrightarrow> date a < 1736467201000"
    by (simp add: apptOlder_def apptPending_def)
  have first: "fst (markExpired 1736467201000 adminAuth ?s) = Inr 2"
    by (simp add: markExpired_def modifiedCount_def stale_def expire_def adminAuth_def
        apptOlder_def apptPending_def)
  show ?thesis
    using first markExpired_twice [OF admin past] by simp
qed

section \<open>Properties of the admin status update\<close>




text \<open>
  An \<open>:id\<close> that is no ObjectId: for an admin and a status among the six, the query
  raises and the answer is 500, with the store unchanged.
\<close>

lemma updateStatus_uncastable:
  assumes "req_userRole rq = ''Admin''" and "v \<in> set validStatuses" and "castObjectId i = None"
  shows "updateStatus castObjectId isoDate rq i (Some v) s = (Inl (500, ''Server error''), s)"
  using assms by (simp add: updateStatus_def)



section \<open>Properties of the doctor dashboard\<close>

subsection \<open>Products that are doubles\<close>

lemma roundHalfEven_of_int: "roundHalfEven (of_int k) = k"
  by (simp add: roundHalfEven_def)

lemma ulp_pos: "0 < ulp x"
  by (simp add: ulp_def)

text \<open>A value on the grid of its binade, below the overflow threshold, is delivered as it is.\<close>

lemma round64_exact:
  assumes "x / ulp x \<in> \<int>" and "\<bar>x\<bar> < 2 ^ 1024"
  shows "round64 x = Finite x"
proof (cases "x = 0")
  case True
  then show ?thesis by (simp add: round64_def)
next
  case False
  from assms(1) obtain k where k: "x / ulp x = of_int k"
    by (auto elim: Ints_cases)
  have r: "roundHalfEven (x / ulp x) = k"
    unfolding k by (rule roundHalfEven_of_int)
  have nz: "ulp x \<noteq> 0"
    using ulp_pos[of x] by simp
  have "x = of_int k * ulp x"
    using k nz by (metis nonzero_divide_eq_eq)
  then have "of_int (roundHalfEven (x / ulp x)) * ulp x = x"
    unfolding r by (rule sym)
  with False assms(2) show ?thesis
    by (simp add: round64_def Let_def)
qed

lemma ulp_binade:
  assumes "2 powr of_int k \<le> \<bar>x\<bar>" and "\<bar>x\<bar> < 2 powr (of_int k + 1)" and "- 1022 \<le> k"
  shows "ulp x = 2 powr (of_int k - 52)"
proof -
  have "0 < \<bar>x\<bar>" using assms(1) powr_gt_zero[of 2 "of_int k"] by linarith
  then have "\<lfloor>log 2 \<bar>x\<bar>\<rfloor> = k"
    using assms(1,2) by (simp add: floor_log_eq_powr_iff)
  with assms(3) show ?thesis by (simp add: ulp_def max_def)
qed

lemma dyadic_int:
  assumes "k \<le> (52::int)"
  shows "real_of_int m / 2 powr (of_int k - 52) \<in> \<int>"
proof -
  have "(2::real) powr (of_int k - 52) = 2 powr (- real (nat (52 - k)))"
    using assms by simp
  also have "\<dots> = 1 / 2 ^ nat (52 - k)"
    by (simp add: powr_minus_divide powr_realpow)
  finally have "real_of_int m / 2 powr (of_int k - 52) = of_int (m * 2 ^ nat (52 - k))"
    by simp
  then show ?thesis by (metis Ints_of_int)
qed

lemma top_int:
  assumes "(2::real) powr 53 \<le> \<bar>x\<bar>" and "\<bar>x\<bar> \<le> 2 ^ 53"
  shows "x / 2 powr (53 - 52) \<in> \<int>"
proof -
  have "\<bar>x\<bar> = 2 ^ 53" using assms by simp
  then have "x = 2 ^ 53 \<or> x = - (2 ^ 53)" by linarith
  then have "x / 2 = 2 ^ 52 \<or> x / 2 = - (2 ^ 52)" by auto
  then have "x / 2 \<in> \<int>" by auto
  then show ?thesis by simp
qed

text \<open>Every integer of magnitude at most \<open>2\<^sup>5\<^sup>3\<close> is a double.\<close>

lemma round64_safe_integer:
  assumes "x \<in> \<int>" and "\<bar>x\<bar> \<le> 2 ^ 53"
  shows "round64 x = Finite x"
proof (cases "x = 0")
  case True
  then show ?thesis by (simp add: round64_def)
next
  case False
  from assms(1) obtain m :: int where m: "x = of_int m" by (auto elim: Ints_cases)
  from False m have "m \<noteq> 0" by auto
  then have "1 \<le> \<bar>m\<bar>" by linarith
  then have "1 \<le> \<bar>real_of_int m\<bar>" by linarith
  then have m1: "1 \<le> \<bar>x\<bar>" by (simp only: m)
  define k where "k = \<lfloor>log 2 \<bar>x\<bar>\<rfloor>"
  have pos: "0 < \<bar>x\<bar>" using False by simp
  have bin: "2 powr of_int k \<le> \<bar>x\<bar>" "\<bar>x\<bar> < 2 powr (of_int k + 1)"
    using floor_log_eq_powr_iff[of "\<bar>x\<bar>" 2 k] pos by (simp_all add: k_def)
  have "0 \<le> log 2 \<bar>x\<bar>"
    using m1 by simp
  then have k0: "0 \<le> k"
    by (simp add: k_def)
  have k53: "k \<le> 53"
  proof -
    have "(2::real) powr of_int k \<le> 2 powr 53" using bin(1) assms(2) by simp
    then have "real_of_int k \<le> 53"
      using powr_le_cancel_iff[of "2::real" "of_int k" 53] by linarith
    then show ?thesis by simp
  qed
  have u: "ulp x = 2 powr (of_int k - 52)"
    using bin k0 by (intro ulp_binade) simp_all
  have small: "\<bar>x\<bar> < 2 ^ 1024"
    using assms(2) by (rule le_less_trans) simp
  have "x / ulp x \<in> \<int>"
  proof (cases "k \<le> 52")
    case True
    then have "real_of_int m / 2 powr (of_int k - 52) \<in> \<int>" by (rule dyadic_int)
    then have "x / 2 powr (of_int k - 52) \<in> \<int>" by (simp only: m)
    then show ?thesis by (simp only: u)
  next
    case False
    with k53 have k: "k = 53" by simp
    have "(2::real) powr 53 \<le> \<bar>x\<bar>" using bin(1) by (simp only: k of_int_numeral)
    then have "x / 2 powr (53 - 52) \<in> \<int>" using assms(2) by (rule top_int)
    then have "x / 2 powr (of_int k - 52) \<in> \<int>" by (simp only: k of_int_numeral)
    then show ?thesis by (simp only: u)
  qed
  then show ?thesis using small by (rule round64_exact)
qed

text \<open>
  Above \<open>2\<^sup>5\<^sup>3\<close> the doubles are two apart: \<open>2\<^sup>5\<^sup>3 + 1\<close> lies halfway between two of
  them and goes to the even one.
\<close>

lemma round64_above_safe: "round64 9007199254740993 = Finite 9007199254740992"
proof -
  have u: "ulp 9007199254740993 = 2"
    using ulp_binade[of 53 "9007199254740993"] by simp
  have "roundHalfEven (9007199254740993 / 2) = 4503599627370496"
    by (simp add: roundHalfEven_def Let_def)
  then show ?thesis
    by (simp add: round64_def u Let_def)
qed

text \<open>A fee with a fractional part: three times 250.5 is a double.\<close>

lemma round64_fraction: "round64 (3 * 250.5) = Finite (3 * 250.5)"
proof -
  have v: "(3::real) * 250.5 = 1503 / 2"
    by simp
  have u: "ulp (1503 / 2) = 2 powr (- 43)"
    using ulp_binade[of 9 "1503 / 2"] by simp
  have p: "(2::real) powr (- 43) = 1 / 2 ^ 43"
    by (simp add: powr_minus_divide)
  have "(1503 / 2) / ulp (1503 / 2) = real_of_int (1503 * 2 ^ 42)"
    unfolding u p by simp
  then have "(1503 / 2) / ulp (1503 / 2) \<in> \<int>"
    by (metis Ints_of_int)
  then have "round64 (1503 / 2) = Finite (1503 / 2)"
    by (rule round64_exact) simp
  then show ?thesis
    unfolding v .
qed

subsection \<open>Earnings\<close>

lemma completedCount_card:
  "completedCount d as =
     card {k. k < length as \<and> doctor_id (as ! k) = d
            \<and> status (as ! k) \<in> {''Completed'', ''Done'', ''Approved''}}"
  by (simp add: completedCount_def length_filter_conv_card)

text \<open>With a finite fee on the profile, the earnings are the rounded product.\<close>

lemma dashboard_earnings_rounded:
  assumes "findDoctorByUserId (req_userId rq) (doctors s) = Some d" and "fees d = Some (Finite f)"
  shows "\<exists>info st. dashboard dayStart dayEnd now rq s = (Inr (info, st), s)
           \<and> earnings st = round64 (real (completedCount (doctor_oid d) (appointments s)) * f)"
  using assms by (simp add: dashboard_def Let_def numOrZero_def)

text \<open>
  Claim C9, as stated: the earnings equal the count of the doctor's appointments with
  status \<open>Completed\<close>, \<open>Done\<close> or \<open>Approved\<close> times the doctor's fee. The handler
  multiplies two doubles. The sample doctor has three completed appointments and the fee
  3002399751580331, an integer below \<open>2\<^sup>5\<^sup>3\<close>: three times the fee is
  9007199254740993, and the dashboard reports 9007199254740992.
\<close>

theorem dashboard_earnings_counterexample:
  "map_option fees (findDoctorByUserId (req_userId doctorAuth)
       (doctors (sampleStore\<lparr>appointments := [apptCompleted, apptCompleted2, apptCompleted3],
                   doctors := [sampleDoctor\<lparr>fees := Some (Finite 3002399751580331)\<rparr>]\<rparr>)))
     = Some (Some (Finite 3002399751580331))
   \<and> completedCount (doctor_oid sampleDoctor) [apptCompleted, apptCompleted2, apptCompleted3] = 3
   \<and> map_sum id (earnings \<circ> snd)
       (fst (dashboard 1736467200000 1736553599999 1736500000000 doctorAuth
          (sampleStore\<lparr>appointments := [apptCompleted, apptCompleted2, apptCompleted3],
             doctors := [sampleDoctor\<lparr>fees := Some (Finite 3002399751580331)\<rparr>]\<rparr>)))
     = Inr (Finite 9007199254740992)
   \<and> Finite (3 * 3002399751580331) \<noteq> Finite 9007199254740992"
  by (simp add: dashboard_def Let_def numOrZero_def completedCount_def findDoctorByUserId_def
      findUserById_def round64_above_safe doctorAuth_def sampleStore_def sampleDoctor_def
      samplePatient_def sampleDoctorUser_def samplePatient2_def
      apptCompleted_def apptCompleted2_def apptCompleted3_def)

text \<open>
  Claim C9, amended. Let the identity own the doctor profile \<open>d\<close> with the finite fee
  \<open>f\<close>, let \<open>n\<close> be the number of appointments of \<open>d\<close> whose status is \<open>Completed\<close>,
  \<open>Done\<close> or \<open>Approved\<close>, and let the product \<open>n * f\<close> be a double, as it is for every
  integer fee with \<open>n * \<bar>f\<bar> \<le> 2\<^sup>5\<^sup>3\<close>. Then the dashboard reports earnings \<open>n * f\<close>, with
  the fee read at query time. In a later store with the same appointments, where the
  profile has the fee \<open>f'\<close> and \<open>n * f'\<close> is a double too, the dashboard reports
  \<open>n * f'\<close>: the report for the same appointments changes exactly when \<open>n\<close> is not zero
  and the fee has changed.
\<close>

theorem dashboard_earnings:
  assumes "findDoctorByUserId (req_userId rq) (doctors s) = Some d" and "fees d = Some (Finite f)"
    and "findDoctorByUserId (req_userId rq) (doctors s') = Some d'" and "fees d' = Some (Finite f')"
    and "doctor_oid d' = doctor_oid d" and "appointments s' = appointments s"
    and "n = card {k. k < length (appointments s) \<and> doctor_id (appointments s ! k) = doctor_oid d
                      \<and> status (appointments s ! k) \<in> {''Completed'', ''Done'', ''Approved''}}"
    and "round64 (real n * f) = Finite (real n * f)"
    and "round64 (real n * f') = Finite (real n * f')"
  shows "\<exists>info st info' st'.
              dashboard dayStart dayEnd now rq s = (Inr (info, st), s)
            \<and> dashboard dayStart' dayEnd' now' rq s' = (Inr (info', st'), s')
            \<and> earnings st = Finite (real n * f)
            \<and> earnings st' = Finite (real n * f')
            \<and> (earnings st' \<noteq> earnings st \<longleftrightarrow> n \<noteq> 0 \<and> f' \<noteq> f)"
proof -
  have n: "completedCount (doctor_oid d) (appointments s) = n"
    unfolding completedCount_card assms(7) ..
  have n': "completedCount (doctor_oid d') (appointments s') = n"
    unfolding assms(5,6) by (rule n)
  obtain info st where 1: "dashboard dayStart dayEnd now rq s = (Inr (info, st), s)"
      "earnings st = round64 (real n * f)"
    using dashboard_earnings_rounded[OF assms(1,2)] unfolding n by blast
  obtain info' st' where 2: "dashboard dayStart' dayEnd' now' rq s' = (Inr (info', st'), s')"
      "earnings st' = round64 (real n * f')"
    using dashboard_earnings_rounded[OF assms(3,4)] unfolding n' by blast
  have e: "earnings st = Finite (real n * f)" "earnings st' = Finite (real n * f')"
    using 1(2) 2(2) assms(8,9) by simp_all
  have "earnings st' \<noteq> earnings st \<longleftrightarrow> n \<noteq> 0 \<and> f' \<noteq> f"
    unfolding e by auto
  with 1(1) 2(1) e show ?thesis by blast
qed

text \<open>
  The sample doctor, fee 500, has one completed appointment; then the fee is 800. The
  dashboard of 10 January reports 500, the one of the next day 800.
\<close>

theorem dashboard_earnings_witness:
  "\<exists>info st info' st'.
      dashboard 1736467200000 1736553599999 1736500000000 doctorAuth
        (sampleStore\<lparr>appointments := [apptCompleted]\<rparr>)
        = (Inr (info, st), sampleStore\<lparr>appointments := [apptCompleted]\<rparr>)
    \<and> dashboard 1736553600000 1736639999999 1736600000000 doctorAuth
        (sampleStore\<lparr>appointments := [apptCompleted], doctors := [sampleDoctor\<lparr>fees := Some (Finite 800)\<rparr>]\<rparr>)
        = (Inr (info', st'),
           sampleStore\<lparr>appointments := [apptCompleted], doctors := [sampleDoctor\<lparr>fees := Some (Finite 800)\<rparr>]\<rparr>)
    \<and> earnings st = Finite 500 \<and> earnings st' = Finite 800"
proof -
  let ?s = "sampleStore\<lparr>appointments := [apptCompleted]\<rparr>"
  let ?s' = "sampleStore\<lparr>appointments := [apptCompleted], doctors := [sampleDoctor\<lparr>fees := Some (Finite 800)\<rparr>]\<rparr>"
  have before: "findDoctorByUserId (req_userId doctorAuth) (doctors ?s) = Some sampleDoctor"
      "fees sampleDoctor = Some (Finite 500)"
    by (simp_all add: findDoctorByUserId_def doctorAuth_def sampleStore_def sampleDoctor_def)
  have after: "findDoctorByUserId (req_userId doctorAuth) (doctors ?s')
        = Some (sampleDoctor\<lparr>fees := Some (Finite 800)\<rparr>)"
      "fees (sampleDoctor\<lparr>fees := Some (Finite 800)\<rparr>) = Some (Finite 800)"
    by (simp_all add: findDoctorByUserId_def doctorAuth_def sampleDoctor_def)
  have same: "doctor_oid (sampleDoctor\<lparr>fees := Some (Finite 800)\<rparr>) = doctor_oid sampleDoctor"
      "appointments ?s' = appointments ?s"
    by simp_all
  have n: "1 = card {k. k < length (appointments ?s)
              \<and> doctor_id (appointments ?s ! k) = doctor_oid sampleDoctor
              \<and> status (appointments ?s ! k) \<in> {''Completed'', ''Done'', ''Approved''}}"
    unfolding completedCount_card[symmetric]
    by (simp add: completedCount_def apptCompleted_def sampleDoctor_def)
  have exact: "round64 (real 1 * 500) = Finite (real 1 * 500)"
      "round64 (real 1 * 800) = Finite (real 1 * 800)"
    by (simp_all add: round64_safe_integer)
  show ?thesis
    using dashboard_earnings [OF before after same n exact,
        of "1736467200000" "1736553599999" "1736500000000"
           "1736553600000" "1736639999999" "1736600000000"]
    by auto
qed

section \<open>Properties of deleting a user\<close>

lemma findUserById_oid: "findUserById i us = Some u \<Longrightarrow> user_oid u = i \<and> u \<in> set us"
  by (induction us) (auto simp: findUserById_def split: if_splits)

lemma deleteUserById_remove1:
  "findUserById i us = Some u \<Longrightarrow> deleteUserById i us = remove1 u us"
proof (induction us)
  case Nil
  then show ?case by (simp add: findUserById_def)
next
  case (Cons a us)
  show ?case
  proof (cases "user_oid a = i")
    case True
    with Cons.prems show ?thesis by (simp add: findUserById_def)
  next
    case False
    with Cons.prems have tl: "findUserById i us = Some u" by (simp add: findUserById_def)
    then have "user_oid u = i" by (simp add: findUserById_oid)
    with False have "u \<noteq> a" by auto
    with False Cons.IH[OF tl] show ?thesis by simp
  qed
qed

text \<open>Identifiers are unique in a collection; then no document with the identifier is left.\<close>

lemma deleteUserById_gone:
  "distinct (map user_oid us) \<Longrightarrow> findUserById i (deleteUserById i us) = None"
proof (induction us)
  case Nil
  then show ?case by (simp add: findUserById_def)
next
  case (Cons a us)
  show ?case
  proof (cases "user_oid a = i")
    case True
    from Cons.prems have "user_oid a \<notin> user_oid ` set us" by simp
    with True have "\<forall>x \<in> set us. user_oid x \<noteq> i" by (metis imageI)
    with True show ?thesis by (simp add: findUserById_def find_None_iff)
  next
    case False
    with Cons show ?thesis by (simp add: findUserById_def)
  qed
qed

text \<open>
  Claim C10. When an admin deletes a user \<open>u\<close> that exists under the identifier \<open>i\<close>:
  the answer is the success message; \<open>u\<close> is removed from the users, the other users
  stay, and with unique identifiers no user is found under \<open>i\<close> afterwards; no
  appointment with \<open>user_id = i\<close> is left, and the appointments of other users stay as
  they were, in their order; doctors, admins, feedback, consultations and consultation
  messages are unchanged.
\<close>

theorem deleteUser_cascade:
  assumes "req_userRole rq = ''Admin''" and "findUserById i (users s) = Some u"
  shows "let r = deleteUser rq i s; s' = snd r in
           fst r = Inr ''User deleted successfully''
         \<and> user_oid u = i
         \<and> users s' = remove1 u (users s)
         \<and> (distinct (map user_oid (users s)) \<longrightarrow> findUserById i (users s') = None)
         \<and> (\<forall>a \<in> set (appointments s'). user_id a \<noteq> i)
         \<and> appointments s' = filter (\<lambda>a. user_id a \<noteq> i) (appointments s)
         \<and> doctors s' = doctors s \<and> admins s' = admins s \<and> feedbacks s' = feedbacks s
         \<and> consultations s' = consultations s \<and> consultationMessages s' = consultationMessages s"
proof -
  have run: "deleteUser rq i s =
      (Inr ''User deleted successfully'',
       s\<lparr>appointments := deleteAppointmentsOf i (appointments s),
         users := deleteUserById i (users s)\<rparr>)"
    using assms by (simp add: deleteUser_def)
  have gone: "distinct (map user_oid (users s)) \<longrightarrow>
      findUserById i (deleteUserById i (users s)) = None"
    by (simp add: deleteUserById_gone)
  have same: "deleteUserById i (users s) = remove1 u (users s)"
    using assms(2) by (rule deleteUserById_remove1)
  have oid: "user_oid u = i"
    using assms(2) by (simp add: findUserById_oid)
  show ?thesis
    unfolding Let_def run fst_conv snd_conv
    using gone oid by (simp add: same[symmetric] deleteAppointmentsOf_def)
qed

text \<open>
  The admin deletes the second patient from a store with one appointment of the first
  patient and two of the second.
\<close>

theorem deleteUser_cascade_witness:
  "deleteUser adminAuth ''aaaaaaaaaaaaaaaaaaaaaaa3''
      (sampleStore\<lparr>appointments := [apptConfirmed, apptPending, apptCompleted]\<rparr>)
     = (Inr ''User deleted successfully'',
        sampleStore\<lparr>appointments := [apptPending], users := [samplePatient, sampleDoctorUser]\<rparr>)"
proof -
  let ?s = "sampleStore\<lparr>appointments := [apptConfirmed, apptPending, apptCompleted]\<rparr>"
  let ?r = "deleteUser adminAuth ''aaaaaaaaaaaaaaaaaaaaaaa3'' ?s"
  have admin: "req_userRole adminAuth = ''Admin''"
    by (simp add: adminAuth_def)
  have found: "findUserById ''aaaaaaaaaaaaaaaaaaaaaaa3'' (users ?s) = Some samplePatient2"
    by (simp add: findUserById_def sampleStore_def samplePatient_def sampleDoctorUser_def
        samplePatient2_def)
  note run = deleteUser_cascade [OF admin found, unfolded Let_def]
  have us: "users (snd ?r) = [samplePatient, sampleDoctorUser]"
    using run by (simp add: sampleStore_def samplePatient_def sampleDoctorUser_def samplePatient2_def)
  have appts: "appointments (snd ?r) = [apptPending]"
    using run by (simp add: apptConfirmed_def apptPending_def apptCompleted_def)
  have rest: "doctors (snd ?r) = doctors sampleStore" "admins (snd ?r) = admins sampleStore"
      "feedbacks (snd ?r) = feedbacks sampleStore" "consultations (snd ?r) = consultations sampleStore"
      "consultationMessages (snd ?r) = consultationMessages sampleStore"
    using run by simp_all
  have "snd ?r = sampleStore\<lparr>appointments := [apptPending], users := [samplePatient, sampleDoctorUser]\<rparr>"
    using us appts rest by (cases "snd ?r") (simp add: sampleStore_def)
  moreover have "fst ?r = Inr ''User deleted successfully''"
    using run by simp
  ultimately show ?thesis
    by (simp add: prod_eq_iff)
qed

end
